theory Spec2Isabelle
  imports Complex_Main
begin

section \<open>Device control agent: data model\<close>

text \<open>
  The development embeds the device control agent of the repository: the command
  dispatcher (\<open>SubMessage\<close>, \<open>Control\<close>, \<open>RunBody\<close>), the deployment functions of
  package \<open>deploy\<close>, the configuration patch functions of package \<open>config\<close> and the
  application registry (\<open>SaveAppInfo\<close>, \<open>DeleteAppInfo\<close>, \<open>CheckExistApp\<close>,
  \<open>GetAppsFromGroup\<close>).

  Go values of type \<open>interface{}\<close> that come out of \<open>encoding/json\<close> are values of
  \<open>jval\<close>. A decoder running with \<open>UseNumber\<close> yields \<open>JNumber\<close> (the type
  \<open>json.Number\<close>, a string holding the literal); a decoder without it yields
  \<open>JFloat\<close> (a \<open>float64\<close>, here the rational number it denotes). A Go map is an
  association list: the order of the list is the order in which a \<open>range\<close> loop visits
  the keys, which Go leaves unspecified, so a statement about every list is a statement
  about every iteration order.
\<close>

datatype jval =
    JNull
  | JBool bool
  | JFloat rat
  | JNumber string
  | JStr string
  | JArr "jval list"
  | JObj "(string \<times> jval) list"

type_synonym jobj = "(string \<times> jval) list"

text \<open>Go errors. \<open>ErrNew\<close> is \<open>errors.New\<close> with its text; the others stand for
  errors raised by the operating system or the standard library, tagged with the
  argument they were raised on.\<close>

datatype error =
    ErrNew string
  | ErrIO string
  | ErrDecode string
  | ErrNum string
  | ErrExec string
  | ErrExt string

definition StatusOK :: int where "StatusOK = 200"
definition StatusBadRequest :: int where "StatusBadRequest = 400"

subsection \<open>Structs of package controlType\<close>

record AppInferenceInfo =
  aii_ModelId :: string
  aii_ModelName :: string
  aii_ModelVersion :: int

record AppInfo =
  ai_AppName :: string
  ai_AppId :: string
  ai_AppVenv :: string
  ai_Managed :: string
  ai_AppGroupId :: string
  ai_AppInference :: "AppInferenceInfo option"

record ConfigInfo =
  ci_AssetCode :: string
  ci_DeviceType :: string
  ci_MqttUrl :: string
  ci_ProjectCode :: string
  ci_Reboot :: string
  ci_RequestId :: string
  ci_ServiceCode :: string
  ci_ServiceType :: string
  ci_ServerIp :: string

record ControlService =
  cs_ArchType :: string
  cs_RootPath :: string
  cs_AppPath :: string
  cs_MinicondaPath :: string
  cs_CommonPythonPath :: string
  cs_VenvPath :: string
  cs_BaseCmd0 :: string
  cs_BaseCmd1 :: string

record InferenceDeploy =
  id_AppType :: string
  id_AppId :: string
  id_AppName :: string
  id_App :: string
  id_FileUrl :: string
  id_VenvName :: string
  id_Parameter :: "jobj option"
  id_ModelId :: string
  id_ModelName :: string
  id_ModelVersion :: int
  id_ModelUrl :: string
  id_ModelFileKey :: string

record CmdDeploy =
  cd_AppId :: string
  cd_AppName :: string
  cd_App :: string
  cd_Image :: string
  cd_FileUrl :: string
  cd_VenvName :: string
  cd_Apps :: "InferenceDeploy list option"
  cd_AppGroupId :: string

text \<open>The slice \<open>Apps\<close> is \<open>None\<close> when nil; \<open>apps_of\<close> is the list a loop ranges over.\<close>

definition apps_of :: "CmdDeploy \<Rightarrow> InferenceDeploy list" where
  "apps_of deployData = (case cd_Apps deployData of None \<Rightarrow> [] | Some apps \<Rightarrow> apps)"

record CmdBash =
  cb_Cmd :: string

record CmdSystemd =
  csd_Cmd :: string
  csd_Service :: string

record CmdDocker =
  cdk_Image :: string
  cdk_AppId :: string
  cdk_AppName :: string

record CmdVenv =
  cv_VenvName :: string
  cv_Requirement :: string
  cv_BinFile :: string
  cv_RunTime :: string

record CmdJson =
  cj_AppId :: string
  cj_AppName :: string
  cj_FileName :: string
  cj_Parameter :: "jobj option"

record Env =
  env_Bin :: string
  env_RunTime :: string
  env_VirtualEnv :: string
  env_Package :: string

text \<open>Of the framework manifest only \<open>spec.env\<close> is read by the deployment functions.\<close>

record Framework =
  fw_Env :: Env

text \<open>\<open>CmdResult\<close> without its two time stamps (\<open>ReleasedAt\<close>, \<open>UpdatedAt\<close>), which
  are the wall clock at construction.\<close>

record CmdResult =
  cr_Command :: string
  cr_SubCommand :: string
  cr_Pid :: int
  cr_Size :: int
  cr_AppName :: string
  cr_VenvName :: string
  cr_VenvRequirement :: string
  cr_AppId :: string
  cr_Message :: string
  cr_Parameter :: "jobj option"
  cr_AppRepoPath :: string
  cr_ModelName :: string
  cr_ModelVersion :: int
  cr_ModelId :: string

record CmdStatus =
  st_Succeed :: int
  st_StatusCode :: int
  st_ErrMsg :: string

record ResultMsg =
  rm_AssetCode :: string
  rm_Result :: "CmdResult option"
  rm_Results :: "CmdResult list option"
  rm_Status :: CmdStatus
  rm_RequestId :: string
  rm_AppGroupId :: string

definition NewCmdResult :: "string \<Rightarrow> string \<Rightarrow> string \<Rightarrow> CmdResult" where
  "NewCmdResult command subCommand message =
     \<lparr> cr_Command = command, cr_SubCommand = subCommand, cr_Pid = -1, cr_Size = -1,
       cr_AppName = [], cr_VenvName = [], cr_VenvRequirement = [], cr_AppId = [],
       cr_Message = message, cr_Parameter = None, cr_AppRepoPath = [],
       cr_ModelName = [], cr_ModelVersion = -1, cr_ModelId = [] \<rparr>"

definition NewCmdStatus :: "int \<Rightarrow> CmdStatus" where
  "NewCmdStatus statusCode =
     \<lparr> st_Succeed = 1, st_StatusCode = statusCode, st_ErrMsg = [] \<rparr>"

definition NewInferenceInfo :: InferenceDeploy where
  "NewInferenceInfo =
     \<lparr> id_AppType = [], id_AppId = [], id_AppName = [], id_App = [], id_FileUrl = [],
       id_VenvName = [], id_Parameter = None, id_ModelId = [], id_ModelName = [],
       id_ModelVersion = 0, id_ModelUrl = [], id_ModelFileKey = [] \<rparr>"


definition zero_Framework :: Framework where
  "zero_Framework =
     \<lparr> fw_Env = \<lparr> env_Bin = [], env_RunTime = [], env_VirtualEnv = [], env_Package = [] \<rparr> \<rparr>"

section \<open>The device: files, directories and the trace of effects\<close>

text \<open>
  A JSON file is described by what a decoder makes of it. The registry file
  (\<open>app.json\<close>) is absent, or present and not decodable into \<open>AppConfig\<close> (unreadable,
  empty, truncated), or it holds a list of records; a JSON \<open>null\<close> list decodes to the
  empty list. The device configuration file decodes into \<open>ConfigInfo\<close>. An
  application configuration file decodes into a \<open>jval\<close>.
\<close>

datatype reg_content = RegInvalid | RegList "AppInfo list"
datatype cfg_content = CfgInvalid | CfgJson ConfigInfo
datatype json_content = JsonInvalid | JsonDoc jval

datatype payload =
    AckBody string string
  | ResultBody ResultMsg
  | RuntimeBody

datatype event =
    EvStat string
  | EvReadFile string
  | EvWriteFile string
  | EvRename string string
  | EvRemoveAll string
  | EvExec "string list"
  | EvHttpGet string
  | EvPublish string payload
  | EvExternal string string

record world =
  registry :: "string \<rightharpoonup> reg_content"
  devconfig :: "string \<rightharpoonup> cfg_content"
  jsonfiles :: "string \<rightharpoonup> json_content"
  paths :: "string set"
  trace :: "event list"

text \<open>A call either returns, with a value and the device as it left it, or the process
  stops in it (\<open>os.Exit\<close>, a panic), leaving the device as it was at that point.\<close>

datatype 'a outcome = Done 'a world | Crash world

definition bind_o :: "'a outcome \<Rightarrow> ('a \<Rightarrow> world \<Rightarrow> 'b outcome) \<Rightarrow> 'b outcome" where
  "bind_o m f = (case m of Crash w \<Rightarrow> Crash w | Done x w \<Rightarrow> f x w)"

fun final_world :: "'a outcome \<Rightarrow> world" where
  "final_world (Done x w) = w"
| "final_world (Crash w) = w"

text \<open>
  What the device and the network answer is not decided by the program. The record
  \<open>env\<close> collects these answers; each is indexed by the number of effects performed so
  far, so the same request may be answered differently at different times.
  \<^item> \<open>e_write\<close>: how \<open>ioutil.WriteFile\<close> on a path ends. \<open>WriteFile\<close> truncates the file
    and then writes, so a failing call either leaves the file as it was or leaves a
    truncated file.
  \<^item> \<open>e_sh\<close>: whether a command (its argument vector) run through \<open>exec.Command\<close>
    succeeds, and its combined output.
  \<^item> \<open>e_publish\<close>: whether the broker accepts a publication on a topic.
  \<^item> \<open>e_http\<close>: what parsing a download URL and fetching it give: a panic (the URL
    does not parse, its path has fewer than three segments, or the request itself
    fails and the nil response is dereferenced), or whether the status is 200, the
    status text, the size of the archive, the repository path computed from the URL
    and the file name that ends the URL.
  \<^item> \<open>e_framework\<close>: the framework manifest found in an application directory.
  \<^item> \<open>e_install_sh\<close>: what \<open>os.Stat\<close> says of \<open>install.sh\<close> in an application directory:
    there, not there, or another error.
  \<^item> \<open>e_external\<close>: the error (if any) and the text returned by a helper that only
    copies files, creates directories or talks to the network.
  \<^item> \<open>e_readdir\<close>: the JSON files of an application directory as \<open>GetConfig\<close> decodes
    them (without \<open>UseNumber\<close>).
  \<^item> \<open>e_marshal\<close>: the text \<open>json.Marshal\<close> writes for a value; the encoder is not
    part of this development and no property below depends on it.
\<close>

datatype write_result = WriteOk | WriteFailedUntouched | WriteFailedTruncated

datatype dl_result = HttpPanic | HttpAnswer bool string int string string

datatype cfg_read = ReadDirFailed | ConfigFiles jobj

record env =
  e_write :: "nat \<Rightarrow> string \<Rightarrow> write_result"
  e_sh :: "nat \<Rightarrow> string list \<Rightarrow> bool \<times> string"
  e_publish :: "nat \<Rightarrow> string \<Rightarrow> bool"
  e_remove_ok :: "nat \<Rightarrow> string \<Rightarrow> bool"
  e_http :: "nat \<Rightarrow> string \<Rightarrow> dl_result"
  e_framework :: "nat \<Rightarrow> string \<Rightarrow> Framework option"
  e_install_sh :: "nat \<Rightarrow> string \<Rightarrow> bool option"
  e_external :: "nat \<Rightarrow> string \<Rightarrow> string \<Rightarrow> error option \<times> string"
  e_readdir :: "nat \<Rightarrow> string \<Rightarrow> cfg_read"
  e_uuid :: "nat \<Rightarrow> string"
  e_marshal :: "jval \<Rightarrow> string"

definition now :: "world \<Rightarrow> nat" where
  "now w = length (trace w)"

definition emit :: "event \<Rightarrow> world \<Rightarrow> world" where
  "emit ev w = w\<lparr>trace := trace w @ [ev]\<rparr>"


subsection \<open>Primitive effects\<close>

text \<open>\<open>os.Stat\<close>, \<open>ioutil.ReadFile\<close> and \<open>ioutil.WriteFile\<close> on the registry file.\<close>

definition WriteFile_registry :: "env \<Rightarrow> string \<Rightarrow> reg_content \<Rightarrow> world \<Rightarrow> bool \<times> world" where
  "WriteFile_registry e p c w =
     (let w1 = emit (EvWriteFile p) w in
      case e_write e (now w) p of
        WriteOk \<Rightarrow> (True, w1\<lparr>registry := (registry w1)(p \<mapsto> c)\<rparr>)
      | WriteFailedUntouched \<Rightarrow> (False, w1)
      | WriteFailedTruncated \<Rightarrow> (False, w1\<lparr>registry := (registry w1)(p \<mapsto> RegInvalid)\<rparr>))"


definition WriteFile_json :: "env \<Rightarrow> string \<Rightarrow> json_content \<Rightarrow> world \<Rightarrow> bool \<times> world" where
  "WriteFile_json e p c w =
     (let w1 = emit (EvWriteFile p) w in
      case e_write e (now w) p of
        WriteOk \<Rightarrow> (True, w1\<lparr>jsonfiles := (jsonfiles w1)(p \<mapsto> c)\<rparr>)
      | WriteFailedUntouched \<Rightarrow> (False, w1)
      | WriteFailedTruncated \<Rightarrow> (False, w1\<lparr>jsonfiles := (jsonfiles w1)(p \<mapsto> JsonInvalid)\<rparr>))"

text \<open>A path lies under a directory when it is the directory or continues it after a
  slash. Paths are compared as written; \<open>..\<close> and symbolic links are not followed.\<close>

definition under :: "string \<Rightarrow> string \<Rightarrow> bool" where
  "under d q = (q = d \<or> take (Suc (length d)) q = d @ ''/'')"

text \<open>\<open>os.RemoveAll\<close>: when it succeeds the path and everything under it are gone.\<close>

definition RemoveAll :: "env \<Rightarrow> string \<Rightarrow> world \<Rightarrow> bool \<times> world" where
  "RemoveAll e p w =
     (let w1 = emit (EvRemoveAll p) w in
      if e_remove_ok e (now w) p
      then (True, w1\<lparr>paths := {q \<in> paths w1. \<not> under p q}\<rparr>)
      else (False, w1))"

text \<open>A command run with \<open>exec.Command\<close> and \<open>CombinedOutput\<close>: whether it
  succeeded, and what it printed. \<open>sh_c\<close> is \<open>exec.Command("sh", "-c", cmd)\<close>.\<close>

definition exec_cmd :: "env \<Rightarrow> string list \<Rightarrow> world \<Rightarrow> (bool \<times> string) \<times> world" where
  "exec_cmd e argv w = (e_sh e (now w) argv, emit (EvExec argv) w)"

definition sh_c :: "env \<Rightarrow> string \<Rightarrow> world \<Rightarrow> (bool \<times> string) \<times> world" where
  "sh_c e cmd w = exec_cmd e [''sh'', ''-c'', cmd] w"

definition cmd_c :: "env \<Rightarrow> string \<Rightarrow> world \<Rightarrow> (bool \<times> string) \<times> world" where
  "cmd_c e cmd w = exec_cmd e [''cmd.exe'', ''/c'', cmd] w"

text \<open>The shell commands \<open>rm -rf p\<close> and \<open>rm p\<close>: when the command succeeds, the path
  (and for \<open>-rf\<close> everything under it) is gone. The path is taken as one word of the
  command line.\<close>

definition sh_rm_rf :: "env \<Rightarrow> string \<Rightarrow> world \<Rightarrow> (bool \<times> string) \<times> world" where
  "sh_rm_rf e p w =
     (let (r, w1) = sh_c e (''rm -rf '' @ p) w in
      if fst r then (r, w1\<lparr>paths := {q \<in> paths w1. \<not> under p q}\<rparr>) else (r, w1))"

definition sh_rm :: "env \<Rightarrow> string \<Rightarrow> world \<Rightarrow> (bool \<times> string) \<times> world" where
  "sh_rm e p w =
     (let (r, w1) = sh_c e (''rm '' @ p) w in
      if fst r then (r, w1\<lparr>paths := paths w1 - {p}\<rparr>) else (r, w1))"

text \<open>\<open>SendDataEdgeMqtt\<close> and \<open>SendAckMessage\<close>: the payload is marshalled (which cannot
  fail for these payloads) and published; when the publication fails the process exits.\<close>

definition SendDataEdgeMqtt :: "env \<Rightarrow> ResultMsg \<Rightarrow> string \<Rightarrow> world \<Rightarrow> unit outcome" where
  "SendDataEdgeMqtt e payload topic w =
     (if e_publish e (now w) topic
      then Done () (emit (EvPublish topic (ResultBody payload)) w)
      else Crash w)"



section \<open>Application registry\<close>

definition appInfoFile :: "string \<Rightarrow> string" where
  "appInfoFile rootPath = rootPath @ ''/device.config/app.json''"

definition mkAppInfo :: "string \<Rightarrow> string \<Rightarrow> string \<Rightarrow> string \<Rightarrow> InferenceDeploy \<Rightarrow> string \<Rightarrow> AppInfo" where
  "mkAppInfo appName appId appVenv appManaged inferenceInfo groupId =
     \<lparr> ai_AppName = appName, ai_AppId = appId, ai_AppVenv = appVenv, ai_Managed = appManaged,
       ai_AppGroupId = groupId,
       ai_AppInference = Some \<lparr> aii_ModelId = id_ModelId inferenceInfo,
                                aii_ModelName = id_ModelName inferenceInfo,
                                aii_ModelVersion = id_ModelVersion inferenceInfo \<rparr> \<rparr>"

text \<open>\<open>SaveAppInfo\<close>: when \<open>os.Stat\<close> reports the file missing, a one-record list is
  written; otherwise the file is read, the record appended and the list written back.
  Read and decode errors are logged only, so an undecodable file counts as the empty
  list. No branch looks for a record of the same name.\<close>

definition SaveAppInfo ::
  "env \<Rightarrow> string \<Rightarrow> string \<Rightarrow> string \<Rightarrow> string \<Rightarrow> InferenceDeploy \<Rightarrow> string \<Rightarrow> string \<Rightarrow> world \<Rightarrow> world" where
  "SaveAppInfo e appName appId appVenv appManaged inferenceInfo groupId rootPath w =
     (let f = appInfoFile rootPath;
          newApp = mkAppInfo appName appId appVenv appManaged inferenceInfo groupId;
          w1 = emit (EvStat f) w
      in case registry w f of
           None \<Rightarrow> snd (WriteFile_registry e f (RegList [newApp]) w1)
         | Some c \<Rightarrow>
             (let w2 = emit (EvReadFile f) w1;
                  AppInfoList = (case c of RegInvalid \<Rightarrow> [] | RegList l \<Rightarrow> l)
              in snd (WriteFile_registry e f (RegList (AppInfoList @ [newApp])) w2)))"

text \<open>\<open>DeleteAppInfo\<close>: returns early when the file cannot be read or decoded; otherwise
  every record whose name differs is kept and the list is written back.\<close>

definition DeleteAppInfo :: "env \<Rightarrow> string \<Rightarrow> string \<Rightarrow> world \<Rightarrow> world" where
  "DeleteAppInfo e appName rootPath w =
     (let f = appInfoFile rootPath;
          w1 = emit (EvReadFile f) w
      in case registry w f of
           None \<Rightarrow> w1
         | Some RegInvalid \<Rightarrow> w1
         | Some (RegList l) \<Rightarrow>
             snd (WriteFile_registry e f (RegList (filter (\<lambda>val. ai_AppName val \<noteq> appName) l)) w1))"


text \<open>\<open>CheckExistApp\<close>: a missing file means no application; a file that cannot be read
  or decoded ends the process with \<open>os.Exit(1)\<close>.\<close>

definition CheckExistApp :: "string \<Rightarrow> string \<Rightarrow> world \<Rightarrow> bool outcome" where
  "CheckExistApp targetApp rootPath w =
     (let f = appInfoFile rootPath;
          w1 = emit (EvStat f) w
      in case registry w f of
           None \<Rightarrow> Done False w1
         | Some c \<Rightarrow>
             (let w2 = emit (EvReadFile f) w1 in
              case c of
                RegInvalid \<Rightarrow> Crash w2
              | RegList l \<Rightarrow> Done (targetApp \<in> set (map ai_AppName l)) w2))"


section \<open>Deleting applications and virtual environments\<close>

text \<open>The framework manifest of an unpacked application is read from the application
  directory; when it cannot be read or decoded the zero manifest is returned.
  \<open>SaveFramework\<close> rewrites the application name inside the manifest, a field no
  function of this development reads.\<close>

definition appDirOf :: "string \<Rightarrow> string \<Rightarrow> string \<Rightarrow> string" where
  "appDirOf appPath appName appId = appPath @ ''/'' @ appName @ ''_'' @ appId"

definition GetVenvFromFramework :: "env \<Rightarrow> string \<Rightarrow> string \<Rightarrow> string \<Rightarrow> world \<Rightarrow> Framework \<times> world" where
  "GetVenvFromFramework e appName appId appPath w =
     (let d = appDirOf appPath appName appId in
      (case e_framework e (now w) d of None \<Rightarrow> zero_Framework | Some bwcFramework \<Rightarrow> bwcFramework,
       emit (EvExternal ''GetVenvFromFramework'' d) w))"

definition SaveFramework :: "string \<Rightarrow> string \<Rightarrow> string \<Rightarrow> world \<Rightarrow> world" where
  "SaveFramework appName appId appPath w =
     emit (EvExternal ''SaveFramework'' (appDirOf appPath appName appId)) w"

text \<open>The result maps of the deployment functions have the keys \<open>name\<close>, \<open>pid\<close>,
  \<open>size\<close>, \<open>appRepoPath\<close> and \<open>venv\<close>; a key a function does not set is never read
  from its result.\<close>

record AppResult =
  ar_name :: string
  ar_pid :: int
  ar_size :: int
  ar_appRepoPath :: string
  ar_venv :: string

type_synonym 'a ret3 = "'a \<times> error option \<times> int"

definition DeleteVenv :: "env \<Rightarrow> string \<Rightarrow> ControlService \<Rightarrow> world \<Rightarrow> string ret3 \<times> world" where
  "DeleteVenv e envName svcInfo w =
     (if envName = [] \<or> envName = ''*''
      then (([], Some (ErrNew ''Not collect value.''), StatusBadRequest), w)
      else
        (let targetEnv = cs_VenvPath svcInfo @ ''/'' @ envName;
             (ok, w1) = RemoveAll e targetEnv w
         in if \<not> ok then (([], Some (ErrIO targetEnv), StatusBadRequest), w1)
            else ((''Deleted V-Env.'', None, StatusOK), w1)))"

definition Delete ::
  "env \<Rightarrow> string \<Rightarrow> string \<Rightarrow> string \<Rightarrow> ControlService \<Rightarrow> world \<Rightarrow> AppResult option ret3 \<times> world" where
  "Delete e appName appId archType svcInfo w =
     (if appName = [] \<or> appName = ''*''
      then ((None, Some (ErrNew ''Not collect value.''), StatusBadRequest), w)
      else
        (let r =
           (if archType = ''win'' then
              (let (bwcFramework, w1) = GetVenvFromFramework e appName appId (cs_AppPath svcInfo) w;
                   py = ''C:/sdt/venv/'' @ env_VirtualEnv (fw_Env bwcFramework) @ ''/python.exe C:/sdt/app/''
                          @ appName @ ''_'' @ appId @ ''/main.py'';
                   (r1, w2) = cmd_c e (py @ '' stop'') w1
               in if \<not> fst r1 then Inl ((None, Some (ErrNew (snd r1)), StatusBadRequest), w2)
                  else
                    (let (r2, w3) = cmd_c e (py @ '' remove'') w2
                     in if \<not> fst r2 then Inl ((None, Some (ErrNew (snd r2)), StatusBadRequest), w3)
                        else
                          (let filePath = ''C:/sdt/app/'' @ appName @ ''_'' @ appId;
                               (ok, w4) = RemoveAll e filePath w3
                           in if \<not> ok then Inl ((None, Some (ErrIO filePath), StatusBadRequest), w4)
                              else Inr w4)))
            else
              (let (r1, w1) = sh_rm_rf e (''/usr/local/sdt/app/'' @ appName @ ''_'' @ appId) w;
                   (r2, w2) = sh_c e (''systemctl disable '' @ appName) w1;
                   (r3, w3) = sh_c e (''systemctl stop '' @ appName) w2;
                   (r4, w4) = sh_rm e (''/etc/systemd/system/'' @ appName @ ''.service'') w3
               in Inr w4))
         in case r of
              Inl res \<Rightarrow> res
            | Inr w' \<Rightarrow>
                ((Some \<lparr> ar_name = appName, ar_pid = -1, ar_size = -1, ar_appRepoPath = [], ar_venv = [] \<rparr>,
                  None, StatusOK),
                 DeleteAppInfo e appName (cs_RootPath svcInfo) w')))"

section \<open>Sequences of registry operations\<close>

text \<open>An add is a call of \<open>SaveAppInfo\<close>, a remove a call of \<open>DeleteAppInfo\<close>.\<close>

datatype reg_op =
    OpAdd string string string string InferenceDeploy string
  | OpRemove string

fun apply_reg_op :: "env \<Rightarrow> string \<Rightarrow> reg_op \<Rightarrow> world \<Rightarrow> world" where
  "apply_reg_op e rootPath (OpAdd appName appId appVenv appManaged inferenceInfo groupId) w =
     SaveAppInfo e appName appId appVenv appManaged inferenceInfo groupId rootPath w"
| "apply_reg_op e rootPath (OpRemove appName) w = DeleteAppInfo e appName rootPath w"

fun run_reg_ops :: "env \<Rightarrow> string \<Rightarrow> reg_op list \<Rightarrow> world \<Rightarrow> world" where
  "run_reg_ops e rootPath [] w = w"
| "run_reg_ops e rootPath (x # xs) w = run_reg_ops e rootPath xs (apply_reg_op e rootPath x w)"

text \<open>\<open>Deploy\<close> and \<open>InferenceDeploy\<close> call \<open>SaveAppInfo\<close> only after \<open>CheckExistApp\<close> has
  answered that no record of that name exists; a guarded add is that pair of calls.\<close>

definition guarded_SaveAppInfo ::
  "env \<Rightarrow> string \<Rightarrow> string \<Rightarrow> string \<Rightarrow> string \<Rightarrow> InferenceDeploy \<Rightarrow> string \<Rightarrow> string \<Rightarrow> world \<Rightarrow> unit outcome" where
  "guarded_SaveAppInfo e appName appId appVenv appManaged inferenceInfo groupId rootPath w =
     bind_o (CheckExistApp appName rootPath w)
       (\<lambda>exist w1. if exist then Done () w1
          else Done () (SaveAppInfo e appName appId appVenv appManaged inferenceInfo groupId rootPath w1))"

fun apply_guarded_op :: "env \<Rightarrow> string \<Rightarrow> reg_op \<Rightarrow> world \<Rightarrow> unit outcome" where
  "apply_guarded_op e rootPath (OpAdd appName appId appVenv appManaged inferenceInfo groupId) w =
     guarded_SaveAppInfo e appName appId appVenv appManaged inferenceInfo groupId rootPath w"
| "apply_guarded_op e rootPath (OpRemove appName) w = Done () (DeleteAppInfo e appName rootPath w)"

fun run_guarded_ops :: "env \<Rightarrow> string \<Rightarrow> reg_op list \<Rightarrow> world \<Rightarrow> unit outcome" where
  "run_guarded_ops e rootPath [] w = Done () w"
| "run_guarded_ops e rootPath (x # xs) w =
     bind_o (apply_guarded_op e rootPath x w) (\<lambda>u w1. run_guarded_ops e rootPath xs w1)"

text \<open>The names held by the registry file, in file order (none when the file is absent
  or undecodable), and the uniqueness invariant of the specification.\<close>

definition registry_records :: "string \<Rightarrow> world \<Rightarrow> AppInfo list" where
  "registry_records rootPath w =
     (case registry w (appInfoFile rootPath) of Some (RegList l) \<Rightarrow> l | _ \<Rightarrow> [])"

definition registry_unique :: "string \<Rightarrow> world \<Rightarrow> bool" where
  "registry_unique rootPath w = distinct (map ai_AppName (registry_records rootPath w))"

text \<open>The specification's description of an atomic write of a file: the new content
  goes to a temporary file, which is then renamed onto the target.\<close>

fun temp_then_rename :: "string \<Rightarrow> event list \<Rightarrow> bool" where
  "temp_then_rename f (EvWriteFile t # EvRename t' f' # evs) =
     ((t \<noteq> f \<and> t' = t \<and> f' = f) \<or> temp_then_rename f (EvRename t' f' # evs))"
| "temp_then_rename f (ev # evs) = temp_then_rename f evs"
| "temp_then_rename f [] = False"

section \<open>Concrete devices and environments\<close>

text \<open>An environment in which every request succeeds, and a device with no files.\<close>

definition env_ok :: env where
  "env_ok =
     \<lparr> e_write = (\<lambda>t p. WriteOk),
       e_sh = (\<lambda>t argv. (True, [])),
       e_publish = (\<lambda>t topic. True),
       e_remove_ok = (\<lambda>t p. True),
       e_http = (\<lambda>t url. HttpAnswer True ''200 OK'' 1 [] ''app.zip''),
       e_framework = (\<lambda>t d. None),
       e_install_sh = (\<lambda>t d. Some False),
       e_external = (\<lambda>t f a. (None, [])),
       e_readdir = (\<lambda>t d. ConfigFiles []),
       e_uuid = (\<lambda>t. ''uuid''),
       e_marshal = (\<lambda>v. []) \<rparr>"

definition world_empty :: world where
  "world_empty =
     \<lparr> registry = Map.empty, devconfig = Map.empty, jsonfiles = Map.empty,
       paths = {}, trace = [] \<rparr>"

definition svc_linux :: ControlService where
  "svc_linux =
     \<lparr> cs_ArchType = ''amd'', cs_RootPath = ''/etc/sdt'', cs_AppPath = ''/usr/local/sdt/app'',
       cs_MinicondaPath = ''/home/sdt/miniconda3/bin'',
       cs_CommonPythonPath = ''/usr/bin'', cs_VenvPath = ''/etc/sdt/venv'',
       cs_BaseCmd0 = ''sh'', cs_BaseCmd1 = ''-c'' \<rparr>"


text \<open>An environment in which every \<open>WriteFile\<close> fails after truncating the file, a
  device whose registry holds the empty list, and a device on which application \<open>a\<close>
  is registered with virtual environment \<open>v\<close>, whose directory exists.\<close>

definition env_write_truncated :: env where
  "env_write_truncated = env_ok\<lparr>e_write := (\<lambda>t p. WriteFailedTruncated)\<rparr>"

definition world_registry_empty :: world where
  "world_registry_empty =
     world_empty\<lparr>registry := [appInfoFile ''/etc/sdt'' \<mapsto> RegList []]\<rparr>"

definition world_venv_in_use :: world where
  "world_venv_in_use =
     world_empty
       \<lparr>registry := [appInfoFile ''/etc/sdt'' \<mapsto>
                       RegList [mkAppInfo ''a'' ''1'' ''v'' ''systemd'' NewInferenceInfo []]],
        paths := {''/etc/sdt/venv/v'', ''/usr/local/sdt/app/a_1''}\<rparr>"

section \<open>Configuration patch engine\<close>

subsection \<open>Numbers as text\<close>

definition is_digit :: "char \<Rightarrow> bool" where
  "is_digit c = (c \<in> set ''0123456789'')"

definition digit_val :: "char \<Rightarrow> nat" where
  "digit_val c = of_char c - 48"

definition digit_char :: "nat \<Rightarrow> char" where
  "digit_char d = ''0123456789'' ! d"

definition dec_val :: "string \<Rightarrow> nat" where
  "dec_val ds = foldl (\<lambda>a c. 10 * a + digit_val c) 0 ds"

fun show_nat :: "nat \<Rightarrow> string" where
  "show_nat n = (if n < 10 then [digit_char n] else show_nat (n div 10) @ [digit_char (n mod 10)])"

definition show_int :: "int \<Rightarrow> string" where
  "show_int i = (if i < 0 then ''-'' @ show_nat (nat (- i)) else show_nat (nat i))"

text \<open>\<open>json.Number.Int64\<close> is \<open>strconv.ParseInt(s, 10, 64)\<close>: an optional sign, at least
  one decimal digit and nothing else, with a value that fits 64 bits. \<open>None\<close> is the
  error.\<close>

definition Int64 :: "string \<Rightarrow> int option" where
  "Int64 s =
     (let neg = (s \<noteq> [] \<and> hd s = CHR ''-'');
          ds = (if s \<noteq> [] \<and> (hd s = CHR ''-'' \<or> hd s = CHR ''+'') then tl s else s)
      in if ds = [] \<or> \<not> list_all is_digit ds then None
         else if neg then (if dec_val ds \<le> 2 ^ 63 then Some (- int (dec_val ds)) else None)
         else (if dec_val ds < 2 ^ 63 then Some (int (dec_val ds)) else None))"

text \<open>\<open>json.Number.Float64\<close> is \<open>strconv.ParseFloat(s, 64)\<close>. On decimal text (an
  optional sign, digits with an optional point, an optional exponent) it fails only when
  the value rounds to an infinity, that is when its magnitude reaches
  \<open>2^1024 - 2^970\<close>, half way between the largest \<open>float64\<close> and \<open>2^1024\<close>. The literals
  of a JSON document are such decimal text; hexadecimal text, underscores and the
  words \<open>inf\<close> and \<open>nan\<close>, which \<open>ParseFloat\<close> also reads, are taken as errors here.\<close>

definition float64_in_range :: "nat \<Rightarrow> int \<Rightarrow> bool" where
  "float64_in_range m ex =
     (if 0 \<le> ex then m * 10 ^ nat ex < 2 ^ 1024 - 2 ^ 970
      else m < (2 ^ 1024 - 2 ^ 970) * 10 ^ nat (- ex))"

definition Float64_ok :: "string \<Rightarrow> bool" where
  "Float64_ok s =
     (let s1 = (if s \<noteq> [] \<and> (hd s = CHR ''-'' \<or> hd s = CHR ''+'') then tl s else s);
          ip = takeWhile is_digit s1;
          r1 = dropWhile is_digit s1;
          dot = (r1 \<noteq> [] \<and> hd r1 = CHR ''.'');
          fp = (if dot then takeWhile is_digit (tl r1) else []);
          r2 = (if dot then dropWhile is_digit (tl r1) else r1);
          ex = (r2 \<noteq> [] \<and> (hd r2 = CHR ''e'' \<or> hd r2 = CHR ''E''));
          r3 = (if ex then tl r2 else r2);
          eneg = (ex \<and> r3 \<noteq> [] \<and> hd r3 = CHR ''-'');
          r4 = (if ex \<and> r3 \<noteq> [] \<and> (hd r3 = CHR ''-'' \<or> hd r3 = CHR ''+'') then tl r3 else r3);
          ed = (if ex then takeWhile is_digit r4 else []);
          r5 = (if ex then dropWhile is_digit r4 else r4);
          expo = (if eneg then - int (dec_val ed) else int (dec_val ed))
      in ip @ fp \<noteq> [] \<and> (ex \<longrightarrow> ed \<noteq> []) \<and> r5 = []
         \<and> float64_in_range (dec_val (ip @ fp)) (expo - int (length fp)))"

text \<open>\<open>fmt.Sprintf("%.1f", f)\<close>: the value rounded to one decimal, ties to the even
  digit, with the sign kept when a negative value rounds to zero.\<close>

definition fmt_1f :: "rat \<Rightarrow> string" where
  "fmt_1f r =
     (let x = 10 * \<bar>r\<bar>;
          f = \<lfloor>x\<rfloor>;
          d = x - of_int f;
          t = (if d < 1 / 2 then f else if 1 / 2 < d then f + 1 else if even f then f else f + 1)
      in (if r < 0 then ''-'' else []) @ show_nat (nat (t div 10)) @ ''.'' @ [digit_char (nat (t mod 10))])"

text \<open>The text \<open>json.Marshal\<close> writes for a number: a \<open>json.Number\<close> is written as it
  is, a \<open>float64\<close> with an integral value below \<open>10^21\<close> in magnitude as that integer.
  Other floats (and other values) are not given a text here.\<close>

fun marshal_number :: "jval \<Rightarrow> string option" where
  "marshal_number (JNumber s) = Some s"
| "marshal_number (JFloat r) =
     (if of_int \<lfloor>r\<rfloor> = r \<and> \<bar>r\<bar> < 10 ^ 21 then Some (show_int \<lfloor>r\<rfloor>) else None)"
| "marshal_number v = None"

subsection \<open>ToNumber and changeInterface\<close>

text \<open>\<open>reflect.TypeOf(v).Kind()\<close>. \<open>TypeOf(nil)\<close> is the nil type, and calling \<open>Kind\<close> on
  it panics: that is \<open>None\<close>. The kind of a \<open>json.Number\<close> is \<open>String\<close>.\<close>

datatype kind = KMap | KString | KFloat64 | KBool | KSlice

fun kindOf :: "jval \<Rightarrow> kind option" where
  "kindOf JNull = None"
| "kindOf (JBool b) = Some KBool"
| "kindOf (JFloat r) = Some KFloat64"
| "kindOf (JNumber s) = Some KString"
| "kindOf (JStr s) = Some KString"
| "kindOf (JArr vs) = Some KSlice"
| "kindOf (JObj m) = Some KMap"

text \<open>\<open>ToNumber\<close>: a \<open>float64\<close> is formatted with one decimal; a value of kind \<open>String\<close> is
  asserted to be a \<open>string\<close> (which panics for a \<open>json.Number\<close>); anything else is
  asserted to be an \<open>int\<close>, which panics for every value a JSON decoder produces.
  \<open>None\<close> is the panic.\<close>

fun ToNumber :: "jval \<Rightarrow> jval option" where
  "ToNumber (JFloat r) = Some (JNumber (fmt_1f r))"
| "ToNumber (JStr s) = Some (JNumber s)"
| "ToNumber v = None"

text \<open>Assignment \<open>target[key] = v\<close> to a key the map holds (or not).\<close>

fun set_key :: "string \<Rightarrow> jval \<Rightarrow> jobj \<Rightarrow> jobj" where
  "set_key k v [] = [(k, v)]"
| "set_key k v ((k', v') # m) = (if k = k' then (k, v) # m else (k', v') # set_key k v m)"

text \<open>
  \<open>changeInterface\<close>. \<open>range_loop\<close> is the \<open>for key, val := range data\<close> loop with the
  entries still to visit, the target map as mutated so far and the current value of
  \<open>err\<close>. The result is \<open>None\<close> when the call panics, and otherwise the pair the Go
  function returns: the map (\<open>None\<close> for \<open>nil\<close>) and the error (\<open>None\<close> for \<open>nil\<close>).
  The nested call gets a fresh \<open>err\<close>; what it returns is assigned to \<open>target[key]\<close>
  and \<open>err\<close>, a \<open>nil\<close> map included.
\<close>

fun range_loop :: "jobj \<Rightarrow> jobj \<Rightarrow> error option \<Rightarrow> (jobj option \<times> error option) option" where
  "range_loop [] target err = Some (Some target, err)"
| "range_loop ((key, val) # rest) target err =
     (case map_of target key of
        None \<Rightarrow> range_loop rest target err
      | Some tv \<Rightarrow>
          if err \<noteq> None then Some (None, err)
          else
            (case kindOf tv of
               None \<Rightarrow> None
             | Some KMap \<Rightarrow>
                 (case kindOf val of
                    None \<Rightarrow> None
                  | Some KMap \<Rightarrow>
                      (case (val, tv) of
                         (JObj d, JObj t) \<Rightarrow>
                           (case range_loop d t None of
                              None \<Rightarrow> None
                            | Some (t', err') \<Rightarrow>
                                range_loop rest
                                  (set_key key (case t' of None \<Rightarrow> JNull | Some m \<Rightarrow> JObj m) target) err')
                       | _ \<Rightarrow> None)
                  | Some k \<Rightarrow> Some (None, Some (ErrNew (''Check ['' @ key @ ''] parameter''))))
             | Some k \<Rightarrow>
                 (case kindOf val of
                    None \<Rightarrow> None
                  | Some KMap \<Rightarrow> Some (None, Some (ErrNew (''Check '' @ key @ '' parameter'')))
                  | Some KString \<Rightarrow> range_loop rest (set_key key val target) err
                  | Some k' \<Rightarrow>
                      (case tv of
                         JNumber n \<Rightarrow>
                           if Int64 n \<noteq> None then range_loop rest (set_key key val target) None
                           else if Float64_ok n then
                             (case ToNumber val of
                                None \<Rightarrow> None
                              | Some v \<Rightarrow> range_loop rest (set_key key v target) None)
                           else range_loop rest target (Some (ErrNum n))
                       | _ \<Rightarrow> range_loop rest (set_key key val target) err))))"

definition changeInterface :: "jobj \<Rightarrow> jobj \<Rightarrow> (jobj option \<times> error option) option" where
  "changeInterface data target = range_loop data target None"

subsection \<open>JsonChange\<close>

text \<open>The configuration file is decoded with \<open>UseNumber\<close> into a map: a JSON object
  gives the map, JSON \<open>null\<close> gives the nil map (which reads as empty and is written
  back as \<open>null\<close>), any other document is a decode error. The string the function
  returns is the marshalled patch.\<close>

definition targetFileOf :: "CmdJson \<Rightarrow> string \<Rightarrow> string \<Rightarrow> string" where
  "targetFileOf configCmd appPath cmdType =
     (if cmdType = ''controlAquarack'' then appPath @ ''/'' @ cj_FileName configCmd
      else appPath @ ''/'' @ cj_AppName configCmd @ ''_'' @ cj_AppId configCmd @ ''/'' @ cj_FileName configCmd)"

definition JsonChange ::
  "env \<Rightarrow> CmdJson \<Rightarrow> string \<Rightarrow> string \<Rightarrow> world \<Rightarrow> (string ret3) outcome" where
  "JsonChange e configCmd appPath cmdType w =
     (case cj_Parameter configCmd of
        None \<Rightarrow> Done ([], None, StatusOK) w
      | Some paramData \<Rightarrow>
          if cj_FileName configCmd = [] then Done ([], None, StatusOK) w
          else
            (let targetFile = targetFileOf configCmd appPath cmdType;
                 w1 = emit (EvReadFile targetFile) w
             in case jsonfiles w targetFile of
                  None \<Rightarrow> Done ([], Some (ErrIO targetFile), StatusBadRequest) w1
                | Some JsonInvalid \<Rightarrow> Done ([], Some (ErrDecode targetFile), StatusBadRequest) w1
                | Some (JsonDoc doc) \<Rightarrow>
                    (case (case doc of JObj m \<Rightarrow> Some m | JNull \<Rightarrow> Some [] | _ \<Rightarrow> None) of
                       None \<Rightarrow> Done ([], Some (ErrDecode targetFile), StatusBadRequest) w1
                     | Some jsonData \<Rightarrow>
                         (case changeInterface paramData jsonData of
                            None \<Rightarrow> Crash w1
                          | Some (res, Some err) \<Rightarrow> Done ([], Some err, StatusBadRequest) w1
                          | Some (res, None) \<Rightarrow>
                              (let saveJson = (case (doc, res) of
                                                 (JNull, r) \<Rightarrow> JNull
                                               | (d, Some m) \<Rightarrow> JObj m
                                               | (d, None) \<Rightarrow> JNull);
                                   (ok, w2) = WriteFile_json e targetFile (JsonDoc saveJson) w1
                               in if \<not> ok then Done ([], Some (ErrIO targetFile), StatusBadRequest) w2
                                  else Done (e_marshal e (JObj paramData), None, StatusOK) w2)))))"




section \<open>Package deploy\<close>

subsection \<open>Strings\<close>

text \<open>\<open>strings.Split\<close> on a one-character separator, \<open>strings.Contains\<close>, and
  \<open>strings.Replace(s, sub, "", -1)\<close> for a non-empty \<open>sub\<close>.\<close>

fun split_char :: "char \<Rightarrow> string \<Rightarrow> string list" where
  "split_char c [] = [[]]"
| "split_char c (x # xs) =
     (if x = c then [] # split_char c xs
      else (case split_char c xs of h # t \<Rightarrow> (x # h) # t | [] \<Rightarrow> [[x]]))"


function delete_all :: "string \<Rightarrow> string \<Rightarrow> string" where
  "delete_all sub [] = []"
| "delete_all sub (c # cs) =
     (if sub \<noteq> [] \<and> take (length sub) (c # cs) = sub
      then delete_all sub (drop (length sub) (c # cs))
      else c # delete_all sub cs)"
  by pat_completeness auto
termination
  by (relation "measure (\<lambda>(sub, s). length s)") (auto simp: neq_Nil_conv)

subsection \<open>Helpers that act outside the modelled state\<close>

text \<open>A helper whose work is copying files, creating directories or a network
  transfer: the environment gives its error and text, the trace records the call.\<close>

definition ext :: "env \<Rightarrow> string \<Rightarrow> string \<Rightarrow> world \<Rightarrow> (error option \<times> string) \<times> world" where
  "ext e name arg w = (e_external e (now w) name arg, emit (EvExternal name arg) w)"

text \<open>\<open>GetVenvList\<close> lists the directories directly in the environment directory;
  \<open>Contains\<close> is membership.\<close>

definition GetVenvList :: "string \<Rightarrow> world \<Rightarrow> string set" where
  "GetVenvList venvPath w = {n. n \<noteq> [] \<and> CHR ''/'' \<notin> set n \<and> venvPath @ ''/'' @ n \<in> paths w}"

definition Contains :: "string set \<Rightarrow> string \<Rightarrow> bool" where
  "Contains elems v = (v \<in> elems)"

text \<open>\<open>CreateVenv\<close>: run \<open>conda create\<close>, write the requirements file, run
  \<open>pip install\<close>. When the requirements file cannot be written the function returns
  status 400 together with the nil error of the \<open>conda\<close> call. The directory of the
  environment exists once \<open>conda create\<close> has succeeded.\<close>

definition CreateVenv ::
  "env \<Rightarrow> string \<Rightarrow> CmdVenv \<Rightarrow> string \<Rightarrow> ControlService \<Rightarrow> world \<Rightarrow> string ret3 \<times> world" where
  "CreateVenv e homeUser venvData appDir svcInfo w =
     (let envPath = cs_VenvPath svcInfo @ ''/'' @ cv_VenvName venvData;
          runTimeVersion = delete_all ''python'' (cv_RunTime venvData);
          createEnvCmd =
            (if homeUser = ''root''
             then ''root/miniconda3/bin/conda create -p '' @ envPath @ '' python='' @ runTimeVersion @ '' -y''
             else cs_MinicondaPath svcInfo @ ''/conda create -p '' @ envPath @ '' python='' @ runTimeVersion @ '' -y'');
          (r1, w1) = exec_cmd e [cs_BaseCmd0 svcInfo, cs_BaseCmd1 svcInfo, createEnvCmd] w
      in if \<not> fst r1 then (([], Some (ErrNew (snd r1)), StatusBadRequest), w1)
         else
           (let w2 = w1\<lparr>paths := paths w1 \<union> {cs_VenvPath svcInfo, envPath}\<rparr>;
                pkgFileName = envPath @ ''/requirements.txt'';
                (r2, w3) = ext e ''write requirements'' pkgFileName w2
            in if appDir = [] \<and> fst r2 \<noteq> None then (([], None, StatusBadRequest), w3)
               else
                 (let pkgCmd = (if cs_ArchType svcInfo = ''win''
                                then envPath @ ''/Scripts/pip install -r '' @ pkgFileName
                                else envPath @ ''/bin/pip install -r '' @ pkgFileName);
                      (r3, w4) = exec_cmd e [cs_BaseCmd0 svcInfo, cs_BaseCmd1 svcInfo, pkgCmd] w3
                  in if \<not> fst r3 then (([], Some (ErrNew (snd r3)), StatusBadRequest), w4)
                     else ((''Created V-Env.'', None, StatusOK), w4))))"

text \<open>\<open>InstallDefaultPkg\<close> runs \<open>pip\<close> once per default package and logs failures.\<close>

definition InstallDefaultPkg :: "string \<Rightarrow> string \<Rightarrow> string \<Rightarrow> ControlService \<Rightarrow> world \<Rightarrow> world" where
  "InstallDefaultPkg venvName deviceType serviceType svcInfo w =
     emit (EvExternal ''InstallDefaultPkg'' venvName) w"


text \<open>\<open>fileDownload\<close>: fetch the archive, unpack it in the applications directory and
  rename the unpacked directory to \<open>appName_appId\<close>. A status other than 200 is the
  only error it returns. The five results are the application directory (the archive
  path on error), the size, the error, the repository path and the archive path.\<close>

definition fileDownload ::
  "env \<Rightarrow> string \<Rightarrow> string \<Rightarrow> string \<Rightarrow> string \<Rightarrow> string \<Rightarrow> world
     \<Rightarrow> (string \<times> int \<times> error option \<times> string \<times> string) outcome" where
  "fileDownload e fullURLFile appId app appName archType w =
     (let w1 = emit (EvHttpGet fullURLFile) w in
      case e_http e (now w) fullURLFile of
        HttpPanic \<Rightarrow> Crash w1
      | HttpAnswer ok status fileSize appRepoPath fileName \<Rightarrow>
          (let appDir = (if archType = ''win'' then ''C:/sdt/app'' else ''/usr/local/sdt/app'');
               fileZip = appDir @ ''/'' @ fileName;
               w2 = w1\<lparr>paths := paths w1 \<union> {appDir}\<rparr>
           in if \<not> ok
              then Done (fileZip, 0, Some (ErrNew (''Download error: '' @ status)), appRepoPath, fileZip) w2
              else
                (let appPath = appDir @ ''/'' @ appName @ ''_'' @ appId;
                     w3 = emit (EvRename (appDir @ ''/'' @ app) appPath) w2
                 in Done (appPath, fileSize, None, appRepoPath, fileZip)
                      (w3\<lparr>paths := paths w3 \<union> {appPath}\<rparr>))))"

text \<open>The service unit writers return nothing; what they wrote is recorded as the
  existence of the unit file.\<close>

definition CreatePythonService :: "env \<Rightarrow> string \<Rightarrow> string \<Rightarrow> string \<Rightarrow> string \<Rightarrow> string \<Rightarrow> world \<Rightarrow> world" where
  "CreatePythonService e appDir appName appVenv runCmd venvPath w =
     (let (r, w1) = ext e ''CreatePythonService'' (appDir @ ''/'' @ appName @ ''.service'') w
      in if fst r \<noteq> None then w1
         else w1\<lparr>paths := paths w1 \<union> {''/etc/systemd/system/'' @ appName @ ''.service''}\<rparr>)"


definition CreateInferenceDir :: "env \<Rightarrow> string \<Rightarrow> world \<Rightarrow> error option \<times> world" where
  "CreateInferenceDir e appDir w =
     (let (r, w1) = ext e ''CreateInferenceDir'' appDir w in (fst r, w1))"

definition DownloadWeight_new ::
  "env \<Rightarrow> string \<Rightarrow> string \<Rightarrow> string \<Rightarrow> string \<Rightarrow> string \<Rightarrow> world \<Rightarrow> error option \<times> world" where
  "DownloadWeight_new e modelUrl appName appId fileName appPath w =
     (if fileName = [] then (Some (ErrNew ''Filename is null.''), w)
      else
        (let (r, w1) = ext e ''DownloadWeight_new'' (appPath @ ''/'' @ appName @ ''_'' @ appId @ ''/'' @ fileName) w
         in (fst r, w1)))"

definition GetLogsApp :: "env \<Rightarrow> string \<Rightarrow> string \<Rightarrow> string \<Rightarrow> world \<Rightarrow> string \<times> world" where
  "GetLogsApp e appPath appName appId w =
     (let (r, w1) = ext e ''GetLogsApp'' (appPath @ ''/'' @ appName @ ''_'' @ appId @ ''/app-error.log'') w
      in (if fst r \<noteq> None then [] else snd r, w1))"

text \<open>\<open>GetPid\<close> asks \<open>systemctl\<close> for \<open>MainPID\<close> and reads the number after the last
  \<open>=\<close> of the output without its last character. Slicing an empty output panics.\<close>

definition GetPid :: "env \<Rightarrow> string \<Rightarrow> world \<Rightarrow> (int \<times> error option \<times> int) outcome" where
  "GetPid e appName w =
     (let (r, w1) = sh_c e (''systemctl show --property MainPID '' @ appName) w in
      if \<not> fst r then Done (-1, Some (ErrNew (snd r)), StatusBadRequest) w1
      else if snd r = [] then Crash w1
      else
        (let pidStr = last (split_char CHR ''='' (butlast (snd r))) in
         if pidStr = [] then Done (-1, Some (ErrNew ''Not found process''), StatusBadRequest) w1
         else
           (case Int64 pidStr of
              None \<Rightarrow> Done (-1, Some (ErrNum pidStr), StatusBadRequest) w1
            | Some pid \<Rightarrow>
                if pid = 0 then Done (-1, Some (ErrNew ''Not found process''), StatusBadRequest) w1
                else Done (pid, None, StatusOK) w1)))"

definition mkResult :: "string \<Rightarrow> int \<Rightarrow> int \<Rightarrow> string \<Rightarrow> string \<Rightarrow> AppResult" where
  "mkResult name pid size' appRepoPath venv =
     \<lparr> ar_name = name, ar_pid = pid, ar_size = size', ar_appRepoPath = appRepoPath, ar_venv = venv \<rparr>"



subsection \<open>Deploy\<close>

text \<open>The message published on the \<open>self-deploy\<close> topic after \<open>Deploy\<close> or
  \<open>InferenceDeploy\<close> created a virtual environment.\<close>

definition self_deploy_topic :: "ConfigInfo \<Rightarrow> string" where
  "self_deploy_topic configData =
     ci_ServiceCode configData @ ''/'' @ ci_ProjectCode configData @ ''/'' @ ci_AssetCode configData
       @ ''/bwc/control/self-deploy''"

definition status_of :: "int \<Rightarrow> error option \<Rightarrow> (error \<Rightarrow> string) \<Rightarrow> CmdStatus" where
  "status_of statusCode cmdErr text =
     (case cmdErr of
        None \<Rightarrow> (NewCmdStatus statusCode)\<lparr>st_ErrMsg := [], st_Succeed := 1\<rparr>
      | Some err \<Rightarrow> (NewCmdStatus statusCode)\<lparr>st_ErrMsg := text err, st_Succeed := 0\<rparr>)"

text \<open>\<open>fmt.Sprintf("%v", err)\<close>: the text of an error.\<close>

fun error_text :: "error \<Rightarrow> string" where
  "error_text (ErrNew s) = s"
| "error_text (ErrIO s) = s"
| "error_text (ErrDecode s) = s"
| "error_text (ErrNum s) = s"
| "error_text (ErrExec s) = s"
| "error_text (ErrExt s) = s"

definition venvCreate_msg ::
  "env \<Rightarrow> ConfigInfo \<Rightarrow> string \<Rightarrow> string \<Rightarrow> string \<Rightarrow> int \<Rightarrow> error option \<Rightarrow> world \<Rightarrow> ResultMsg" where
  "venvCreate_msg e configData stdout venv requirement statusCode cmdErr w =
     \<lparr> rm_AssetCode = ci_AssetCode configData,
       rm_Result = Some ((NewCmdResult ''virtualEnv'' ''venvCreate'' stdout)
                           \<lparr>cr_VenvName := venv, cr_VenvRequirement := requirement\<rparr>),
       rm_Results = None,
       rm_Status = status_of statusCode cmdErr error_text,
       rm_RequestId = e_uuid e (now w),
       rm_AppGroupId = [] \<rparr>"






subsection \<open>InferenceDeploy and InferenceDelete\<close>

text \<open>The weight file name is found by following the dotted key through the
  parameter map; a type assertion on a missing key, or on a value of the wrong type,
  panics (\<open>None\<close>).\<close>

fun key_path :: "string list \<Rightarrow> jobj \<Rightarrow> string option" where
  "key_path [] fileDict = None"
| "key_path [k] fileDict = (case map_of fileDict k of Some (JStr s) \<Rightarrow> Some s | _ \<Rightarrow> None)"
| "key_path (k # ks) fileDict = (case map_of fileDict k of Some (JObj m) \<Rightarrow> key_path ks m | _ \<Rightarrow> None)"

text \<open>One pass of the loop of \<open>InferenceDeploy\<close>: either the loop goes on with the
  result of this application, or the function returns with an error and a status.\<close>

datatype step = Continue AppResult string | Return "error option" int string

definition InferenceDeploy_app ::
  "env \<Rightarrow> CmdDeploy \<Rightarrow> string \<Rightarrow> ControlService \<Rightarrow> ConfigInfo \<Rightarrow> string \<Rightarrow> InferenceDeploy
     \<Rightarrow> world \<Rightarrow> step outcome" where
  "InferenceDeploy_app e deployData archType svcInfo configData homeUser appItem w =
     (let venv0 = id_VenvName appItem; appId = id_AppId appItem; appName = id_AppName appItem in
      bind_o (fileDownload e (id_FileUrl appItem) appId (id_App appItem) appName archType w)
        (\<lambda>(filePath, fileSize, cmdErr, appRepoPath, fileZip) w1.
           if cmdErr \<noteq> None then Done (Return cmdErr StatusBadRequest venv0) w1
           else
             (let w2 = SaveFramework appName appId (cs_AppPath svcInfo) w1;
                  (bwcFramework, w3) = GetVenvFromFramework e appName appId (cs_AppPath svcInfo) w2
              in bind_o (CheckExistApp appName (cs_RootPath svcInfo) w3)
                 (\<lambda>exist w4.
                    if exist then Done (Return (Some (ErrNew ''App already exist.'')) StatusBadRequest venv0) w4
                    else
                      (let venv = (if venv0 = [] \<or> venv0 = ''app-store''
                                   then env_VirtualEnv (fw_Env bwcFramework) else venv0);
                           provision =
                             (if \<not> Contains (GetVenvList (cs_VenvPath svcInfo) w4) venv
                              then
                                (let venvData = \<lparr> cv_VenvName = venv, cv_Requirement = env_Package (fw_Env bwcFramework),
                                                  cv_BinFile = env_Bin (fw_Env bwcFramework),
                                                  cv_RunTime = env_RunTime (fw_Env bwcFramework) \<rparr>;
                                     ((stdout, cmdErr, statusCode), w5) = CreateVenv e homeUser venvData filePath svcInfo w4;
                                     w6 = InstallDefaultPkg venv (ci_DeviceType configData) (ci_ServiceType configData) svcInfo w5
                                 in if cmdErr \<noteq> None
                                    then Done (Some (Return (Some (ErrNew stdout)) statusCode venv)) w6
                                    else bind_o (SendDataEdgeMqtt e
                                                   (venvCreate_msg e configData stdout venv [] statusCode cmdErr w6)
                                                   (self_deploy_topic configData) w6)
                                           (\<lambda>u w7. Done None w7))
                              else Done None w4)
                       in bind_o provision
                          (\<lambda>failed w8.
                             case failed of
                               Some ret \<Rightarrow> Done ret w8
                             | None \<Rightarrow>
                                 (let w9 = SaveAppInfo e appName appId venv ''systemd'' appItem (cd_AppGroupId deployData)
                                             (cs_RootPath svcInfo) w8;
                                      w10 = CreatePythonService e filePath appName venv ''main.py'' (cs_VenvPath svcInfo) w9;
                                      typed =
                                        (if id_AppType appItem = ''INFERENCE'' then
                                           (let (dirErr, w11) = CreateInferenceDir e filePath w10
                                            in if dirErr \<noteq> None then Done (Some (Return dirErr StatusBadRequest venv)) w11
                                               else
                                                 (case key_path (split_char CHR ''.'' (id_ModelFileKey appItem))
                                                         (case id_Parameter appItem of None \<Rightarrow> [] | Some m \<Rightarrow> m) of
                                                    None \<Rightarrow> Crash w11
                                                  | Some modelFileName \<Rightarrow>
                                                      (let (dlErr, w12) = DownloadWeight_new e (id_ModelUrl appItem) appName appId
                                                                           modelFileName (cs_AppPath svcInfo) w11
                                                       in if dlErr \<noteq> None then Done (Some (Return dlErr StatusBadRequest venv)) w12
                                                          else
                                                            bind_o (JsonChange e
                                                                      \<lparr> cj_AppId = appId, cj_AppName = appName,
                                                                        cj_FileName = ''config.json'',
                                                                        cj_Parameter = id_Parameter appItem \<rparr>
                                                                      (cs_AppPath svcInfo) [] w12)
                                                              (\<lambda>(out, configErr, code) w13.
                                                                 if configErr \<noteq> None
                                                                 then Done (Some (Return configErr StatusBadRequest venv)) w13
                                                                 else Done None w13))))
                                         else if id_AppType appItem = ''REQUEST'' then Done None w10
                                         else Done (Some (Return (Some (ErrNew (id_AppType appItem @ '': Invalid app type. '' @ [CHR 0x0A])))
                                                            StatusBadRequest venv)) w10)
                                  in bind_o typed
                                     (\<lambda>failed' w14.
                                        case failed' of
                                          Some ret \<Rightarrow> Done ret w14
                                        | None \<Rightarrow>
                                            (let (r1, w15) = sh_c e (''systemctl start '' @ appName) w14
                                             in if \<not> fst r1
                                                then Done (Return (Some (ErrNew (snd r1))) StatusBadRequest venv) w15
                                                else
                                                  (let (r2, w16) = sh_c e (''systemctl enable '' @ appName) w15
                                                   in if \<not> fst r2
                                                      then Done (Return (Some (ErrNew (snd r2))) StatusBadRequest venv) w16
                                                      else
                                                        bind_o (GetPid e appName w16)
                                                          (\<lambda>(pid, cmd_err, code) w17.
                                                             if cmd_err \<noteq> None
                                                             then (let (logResult, w18) = GetLogsApp e (cs_AppPath svcInfo) appName appId w17
                                                                   in Done (Return (Some (ErrNew logResult)) StatusBadRequest venv) w18)
                                                             else Done (Continue (mkResult appName pid fileSize appRepoPath venv) venv)
                                                                    (emit (EvExternal ''Remove'' fileZip) w17))))))))))))"

text \<open>The loop: the results of the applications deployed so far are returned with the
  first failure; when every application is deployed the status is 200 and the error
  is the (never assigned) outer \<open>cmdErr\<close>. The last argument but one is the value of
  the variable \<open>venv\<close>.\<close>

fun InferenceDeploy_loop ::
  "env \<Rightarrow> CmdDeploy \<Rightarrow> string \<Rightarrow> ControlService \<Rightarrow> ConfigInfo \<Rightarrow> string \<Rightarrow> InferenceDeploy list
     \<Rightarrow> AppResult list \<Rightarrow> string \<Rightarrow> world \<Rightarrow> (AppResult list \<times> error option \<times> int \<times> string) outcome" where
  "InferenceDeploy_loop e deployData archType svcInfo configData homeUser [] inferenceResult venv w =
     Done (inferenceResult, None, StatusOK, venv) w"
| "InferenceDeploy_loop e deployData archType svcInfo configData homeUser (appItem # rest) inferenceResult venv w =
     bind_o (InferenceDeploy_app e deployData archType svcInfo configData homeUser appItem w)
       (\<lambda>s w1.
          case s of
            Return cmdErr statusCode venv' \<Rightarrow> Done (inferenceResult, cmdErr, statusCode, venv') w1
          | Continue deployResult venv' \<Rightarrow>
              InferenceDeploy_loop e deployData archType svcInfo configData homeUser rest
                (inferenceResult @ [deployResult]) venv' w1)"

definition InferenceDeploy ::
  "env \<Rightarrow> CmdDeploy \<Rightarrow> string \<Rightarrow> ControlService \<Rightarrow> ConfigInfo \<Rightarrow> string \<Rightarrow> world
     \<Rightarrow> (AppResult list \<times> error option \<times> int \<times> string) outcome" where
  "InferenceDeploy e deployData archType svcInfo configData homeUser w =
     InferenceDeploy_loop e deployData archType svcInfo configData homeUser (apps_of deployData) [] [] w"



subsection \<open>GetConfig and the model update\<close>


record CmdModel =
  cm_AppId :: string
  cm_AppName :: string
  cm_ModelId :: string
  cm_ModelName :: string
  cm_ModelVersion :: int
  cm_ModelUrl :: string
  cm_ModelFileKey :: string
  cm_Parameter :: "jobj option"


subsection \<open>Package docker\<close>






section \<open>Package config: the reboot marker\<close>


section \<open>Package control: the dispatcher\<close>

text \<open>A command envelope. \<open>CmdInfo\<close> is decoded into the struct of the command type; a
  decoding error is logged and the struct keeps its zero fields. The envelope here
  carries what each decoding yields.\<close>

record CmdControl =
  cc_CmdType :: string
  cc_SubCmdType :: string
  cc_AssetCode :: string
  cc_RequestId :: string
  cc_bash :: CmdBash
  cc_systemd :: CmdSystemd
  cc_docker :: CmdDocker
  cc_venv :: CmdVenv
  cc_deploy :: CmdDeploy
  cc_model :: CmdModel
  cc_json :: CmdJson








subsection \<open>The branches of Control\<close>







subsection \<open>The deploy branch\<close>







subsection \<open>Control\<close>


section \<open>Package main: SubMessage and RunBody\<close>




section \<open>Predicates on traces\<close>

text \<open>The trace of one device is an extension of the trace of another.\<close>

definition tle :: "world \<Rightarrow> world \<Rightarrow> bool" where
  "tle w w' = (\<exists>evs. trace w' = trace w @ evs)"






definition zero_CmdDeploy :: CmdDeploy where
  "zero_CmdDeploy =
     \<lparr> cd_AppId = [], cd_AppName = [], cd_App = [], cd_Image = [], cd_FileUrl = [], cd_VenvName = [],
       cd_Apps = None, cd_AppGroupId = [] \<rparr>"

definition zero_CmdControl :: CmdControl where
  "zero_CmdControl =
     \<lparr> cc_CmdType = [], cc_SubCmdType = [], cc_AssetCode = [], cc_RequestId = [],
       cc_bash = \<lparr> cb_Cmd = [] \<rparr>,
       cc_systemd = \<lparr> csd_Cmd = [], csd_Service = [] \<rparr>,
       cc_docker = \<lparr> cdk_Image = [], cdk_AppId = [], cdk_AppName = [] \<rparr>,
       cc_venv = \<lparr> cv_VenvName = [], cv_Requirement = [], cv_BinFile = [], cv_RunTime = [] \<rparr>,
       cc_deploy = zero_CmdDeploy,
       cc_model = \<lparr> cm_AppId = [], cm_AppName = [], cm_ModelId = [], cm_ModelName = [],
                    cm_ModelVersion = 0, cm_ModelUrl = [], cm_ModelFileKey = [], cm_Parameter = None \<rparr>,
       cc_json = \<lparr> cj_AppId = [], cj_AppName = [], cj_FileName = [], cj_Parameter = None \<rparr> \<rparr>"




text \<open>A group command for three applications of type \<open>REQUEST\<close> in the group \<open>g\<close>, a
  device on which their virtual environment exists, and an environment in which the
  archive of the second application is answered with status 404 and \<open>systemctl show\<close>
  prints a process id.\<close>

definition group_app :: "string \<Rightarrow> string \<Rightarrow> string \<Rightarrow> InferenceDeploy" where
  "group_app appName appId url =
     NewInferenceInfo\<lparr>id_AppType := ''REQUEST'', id_AppId := appId, id_AppName := appName,
                       id_App := ''app'', id_FileUrl := url, id_VenvName := ''v''\<rparr>"

definition cmd_group3 :: CmdControl where
  "cmd_group3 =
     zero_CmdControl
       \<lparr>cc_CmdType := ''deploy'', cc_SubCmdType := ''appDeploy'', cc_RequestId := ''r3'',
        cc_deploy :=
          zero_CmdDeploy
            \<lparr>cd_Apps := Some [group_app ''a1'' ''1'' ''http://repo/p/b/app1.zip'',
                              group_app ''a2'' ''2'' ''http://repo/p/b/app2.zip'',
                              group_app ''a3'' ''3'' ''http://repo/p/b/app3.zip''],
             cd_AppGroupId := ''g''\<rparr>\<rparr>"

definition world_venv_v :: world where
  "world_venv_v = world_empty\<lparr>paths := {''/etc/sdt/venv/v''}\<rparr>"

definition env_second_download_fails :: env where
  "env_second_download_fails =
     env_ok
       \<lparr>e_sh := (\<lambda>t argv. if argv = [''sh'', ''-c'', ''systemctl show --property MainPID a1'']
                           then (True, ''MainPID=7'' @ [CHR 0x0A]) else (True, [])),
        e_http := (\<lambda>t url. if url = ''http://repo/p/b/app2.zip''
                            then HttpAnswer False ''404 Not Found'' 0 [] ''app2.zip''
                            else HttpAnswer True ''200 OK'' 1 [] ''app.zip'')\<rparr>"

text \<open>What \<open>Control\<close> puts in the result of a group command for one requested
  application when the command failed.\<close>

definition failed_result :: "string \<Rightarrow> string \<Rightarrow> string \<Rightarrow> InferenceDeploy \<Rightarrow> CmdResult" where
  "failed_result cmdType subCmd deployMessage app =
     (NewCmdResult cmdType subCmd deployMessage)
       \<lparr>cr_AppId := id_AppId app, cr_AppName := id_AppName app, cr_ModelName := id_ModelName app,
        cr_ModelVersion := id_ModelVersion app, cr_ModelId := id_ModelId app,
        cr_VenvName := [], cr_Size := -1, cr_Pid := -1, cr_AppRepoPath := [], cr_Parameter := None\<rparr>"







section \<open>Properties of the application registry\<close>

lemma records_SaveAppInfo:
  "registry_records r (SaveAppInfo e n i v m inf0 g r w) =
     (case e_write e (now w + (if registry w (appInfoFile r) = None then 1 else 2)) (appInfoFile r) of
        WriteOk \<Rightarrow> registry_records r w @ [mkAppInfo n i v m inf0 g]
      | WriteFailedUntouched \<Rightarrow> registry_records r w
      | WriteFailedTruncated \<Rightarrow> [])"
  by (auto simp: registry_records_def SaveAppInfo_def WriteFile_registry_def emit_def now_def Let_def
      split: option.splits reg_content.splits write_result.splits)

lemma records_DeleteAppInfo_distinct:
  "distinct (map ai_AppName (registry_records r w)) \<Longrightarrow>
   distinct (map ai_AppName (registry_records r (DeleteAppInfo e n r w)))"
  by (auto simp: registry_records_def DeleteAppInfo_def WriteFile_registry_def emit_def now_def Let_def
      distinct_map_filter split: option.splits reg_content.splits write_result.splits)

lemma CheckExistApp_Done:
  "CheckExistApp n r w = Done b w' \<Longrightarrow>
     registry w' = registry w \<and> (b \<longleftrightarrow> n \<in> set (map ai_AppName (registry_records r w)))"
  by (auto simp: CheckExistApp_def registry_records_def emit_def Let_def
      split: option.splits reg_content.splits)

lemma CheckExistApp_Crash:
  "CheckExistApp n r w = Crash w' \<Longrightarrow> registry w' = registry w"
  by (auto simp: CheckExistApp_def registry_records_def emit_def Let_def
      split: option.splits reg_content.splits)

lemma registry_records_cong:
  "registry w' = registry w \<Longrightarrow> registry_records r w' = registry_records r w"
  by (simp add: registry_records_def)

lemma unique_guarded_op:
  assumes "registry_unique r w"
  shows "registry_unique r (final_world (apply_guarded_op e r x w))"
proof (cases x)
  case (OpAdd n i v m inf0 g)
  show ?thesis
  proof (cases "CheckExistApp n r w")
    case (Done b w1)
    from CheckExistApp_Done[OF Done] have reg: "registry w1 = registry w"
      and b: "b \<longleftrightarrow> n \<in> set (map ai_AppName (registry_records r w))" by auto
    have rr: "registry_records r w1 = registry_records r w"
      using reg by (rule registry_records_cong)
    show ?thesis using assms OpAdd Done b rr
      by (auto simp: guarded_SaveAppInfo_def bind_o_def registry_unique_def records_SaveAppInfo
          mkAppInfo_def split: write_result.splits)
  next
    case (Crash w1)
    from CheckExistApp_Crash[OF Crash] have "registry_records r w1 = registry_records r w"
      by (rule registry_records_cong)
    then show ?thesis using assms OpAdd Crash
      by (simp add: guarded_SaveAppInfo_def bind_o_def registry_unique_def)
  qed
next
  case (OpRemove n)
  then show ?thesis using assms by (simp add: registry_unique_def records_DeleteAppInfo_distinct)
qed

lemma unique_run_guarded:
  "registry_unique r w \<Longrightarrow> registry_unique r (final_world (run_guarded_ops e r ops w))"
proof (induction ops arbitrary: w)
  case Nil
  then show ?case by simp
next
  case (Cons x xs)
  show ?case
  proof (cases "apply_guarded_op e r x w")
    case (Done u w1)
    with unique_guarded_op[OF Cons.prems, of e x] have "registry_unique r w1" by simp
    from Cons.IH[OF this] show ?thesis using Done by (simp add: bind_o_def)
  next
    case (Crash w1)
    with unique_guarded_op[OF Cons.prems, of e x] show ?thesis by (simp add: bind_o_def)
  qed
qed

text \<open>
  Claim C1, as stated: after every sequence of \<open>SaveAppInfo\<close> and \<open>DeleteAppInfo\<close> calls
  from an absent registry file no two records share a name. It fails: \<open>SaveAppInfo\<close>
  appends without looking, so adding the name \<open>a\<close> twice leaves two records named \<open>a\<close>.
\<close>

theorem SaveAppInfo_twice_duplicates_name:
  "\<not> registry_unique ''/etc/sdt''
        (run_reg_ops env_ok ''/etc/sdt''
           [OpAdd ''a'' ''1'' ''v'' ''systemd'' NewInferenceInfo [],
            OpAdd ''a'' ''2'' ''v'' ''systemd'' NewInferenceInfo []] world_empty)"
  by (simp add: registry_unique_def registry_records_def SaveAppInfo_def appInfoFile_def
      WriteFile_registry_def emit_def now_def env_ok_def world_empty_def mkAppInfo_def Let_def)

text \<open>
  Claim C1, amended: starting from an absent registry file or one holding the empty
  list, after every sequence of guarded adds (\<open>SaveAppInfo\<close> called only when
  \<open>CheckExistApp\<close> answers that the name is not registered, as \<open>Deploy\<close> and
  \<open>InferenceDeploy\<close> do) and removes, whatever the outcome of each write, no two
  records of the registry file share a name.
\<close>

theorem guarded_ops_keep_names_unique:
  assumes "registry w (appInfoFile r) = None \<or> registry w (appInfoFile r) = Some (RegList [])"
  shows "registry_unique r (final_world (run_guarded_ops e r ops w))"
proof -
  have "registry_unique r w"
    using assms by (auto simp: registry_unique_def registry_records_def)
  then show ?thesis by (rule unique_run_guarded)
qed

text \<open>Witness for C1 amended: an absent registry, the name \<open>a\<close> added twice under the
  guard and the name \<open>b\<close> removed; the second add is refused and one record remains.\<close>

theorem guarded_ops_keep_names_unique_witness:
  "(registry world_empty (appInfoFile ''/etc/sdt'') = None
      \<or> registry world_empty (appInfoFile ''/etc/sdt'') = Some (RegList []))
   \<and> registry_unique ''/etc/sdt''
        (final_world (run_guarded_ops env_ok ''/etc/sdt''
           [OpAdd ''a'' ''1'' ''v'' ''systemd'' NewInferenceInfo [],
            OpAdd ''a'' ''2'' ''v'' ''systemd'' NewInferenceInfo [],
            OpRemove ''b''] world_empty))
   \<and> map ai_AppId (registry_records ''/etc/sdt''
        (final_world (run_guarded_ops env_ok ''/etc/sdt''
           [OpAdd ''a'' ''1'' ''v'' ''systemd'' NewInferenceInfo [],
            OpAdd ''a'' ''2'' ''v'' ''systemd'' NewInferenceInfo [],
            OpRemove ''b''] world_empty))) = [''1'']"
  using guarded_ops_keep_names_unique[of world_empty "''/etc/sdt''" env_ok
      "[OpAdd ''a'' ''1'' ''v'' ''systemd'' NewInferenceInfo [],
        OpAdd ''a'' ''2'' ''v'' ''systemd'' NewInferenceInfo [], OpRemove ''b'']"]
  by (simp add: registry_records_def guarded_SaveAppInfo_def CheckExistApp_def SaveAppInfo_def
      DeleteAppInfo_def bind_o_def appInfoFile_def WriteFile_registry_def emit_def now_def
      env_ok_def world_empty_def mkAppInfo_def Let_def)

text \<open>
  Claim C7, as stated: every write of the registry file is atomic (write to a temporary
  file, then rename, or an equivalent), so that the file, if present, always holds a
  well-formed record list. It fails: \<open>SaveAppInfo\<close> calls \<open>ioutil.WriteFile\<close> on the
  registry path itself; when that call fails after truncating, a registry that held a
  well-formed list is left present and undecodable, and no rename took place.
\<close>

theorem SaveAppInfo_failed_write_leaves_invalid_file:
  "registry world_registry_empty (appInfoFile ''/etc/sdt'') = Some (RegList []) \<and>
   registry (SaveAppInfo env_write_truncated ''a'' ''1'' ''v'' ''systemd'' NewInferenceInfo []
               ''/etc/sdt'' world_registry_empty) (appInfoFile ''/etc/sdt'') = Some RegInvalid \<and>
   \<not> temp_then_rename (appInfoFile ''/etc/sdt'')
        (trace (SaveAppInfo env_write_truncated ''a'' ''1'' ''v'' ''systemd'' NewInferenceInfo []
                  ''/etc/sdt'' world_registry_empty))"
  by (simp add: SaveAppInfo_def WriteFile_registry_def emit_def now_def Let_def
      env_write_truncated_def env_ok_def world_registry_empty_def world_empty_def appInfoFile_def)

text \<open>
  Claim C7, amended: every write of the registry file by \<open>SaveAppInfo\<close> and
  \<open>DeleteAppInfo\<close> is one \<open>ioutil.WriteFile\<close> call on the registry path itself, carrying
  the complete new record list (no temporary file, no rename). When the call succeeds
  the file holds that well-formed list; when it fails the file is left as it was or
  truncated.
\<close>

theorem registry_written_in_place:
  "trace (SaveAppInfo e n i v m inf0 g r w) =
     trace w @ [EvStat (appInfoFile r)]
       @ (if registry w (appInfoFile r) = None then [] else [EvReadFile (appInfoFile r)])
       @ [EvWriteFile (appInfoFile r)]
   \<and> registry (SaveAppInfo e n i v m inf0 g r w) (appInfoFile r) =
       (case e_write e (now w + (if registry w (appInfoFile r) = None then 1 else 2)) (appInfoFile r) of
          WriteOk \<Rightarrow> Some (RegList (registry_records r w @ [mkAppInfo n i v m inf0 g]))
        | WriteFailedUntouched \<Rightarrow> registry w (appInfoFile r)
        | WriteFailedTruncated \<Rightarrow> Some RegInvalid)
   \<and> trace (DeleteAppInfo e n r w) =
       trace w @ [EvReadFile (appInfoFile r)]
         @ (case registry w (appInfoFile r) of
              Some (RegList l) \<Rightarrow> [EvWriteFile (appInfoFile r)] | _ \<Rightarrow> [])
   \<and> registry (DeleteAppInfo e n r w) (appInfoFile r) =
       (case registry w (appInfoFile r) of
          Some (RegList l) \<Rightarrow>
            (case e_write e (now w + 1) (appInfoFile r) of
               WriteOk \<Rightarrow> Some (RegList (filter (\<lambda>val. ai_AppName val \<noteq> n) l))
             | WriteFailedUntouched \<Rightarrow> Some (RegList l)
             | WriteFailedTruncated \<Rightarrow> Some RegInvalid)
        | other \<Rightarrow> other)"
  by (auto simp: SaveAppInfo_def DeleteAppInfo_def WriteFile_registry_def emit_def now_def Let_def
      registry_records_def split: option.splits reg_content.splits write_result.splits)

section \<open>Properties of the delete functions\<close>




text \<open>
  Claim C10: for a target name that is the empty string or \<open>*\<close>, \<open>Delete\<close> (application)
  and \<open>DeleteVenv\<close> (virtual environment) return an error with status 400 before any
  effect: the device, including its directories, its registry and its trace of
  effects, is exactly as before the call.
\<close>

theorem delete_guard_empty_or_star:
  assumes "name = [] \<or> name = ''*''"
  shows "Delete e name appId archType svcInfo w =
           ((None, Some (ErrNew ''Not collect value.''), StatusBadRequest), w)
       \<and> DeleteVenv e name svcInfo w =
           (([], Some (ErrNew ''Not collect value.''), StatusBadRequest), w)"
  using assms by (auto simp: Delete_def DeleteVenv_def)

text \<open>Witness for C10: the name \<open>*\<close> on a device with an application and an environment.\<close>

theorem delete_guard_empty_or_star_witness:
  "(''*'' = [] \<or> ''*'' = ''*'')
   \<and> Delete env_ok ''*'' ''1'' ''amd'' svc_linux world_venv_in_use =
           ((None, Some (ErrNew ''Not collect value.''), StatusBadRequest), world_venv_in_use)
   \<and> DeleteVenv env_ok ''*'' svc_linux world_venv_in_use =
           (([], Some (ErrNew ''Not collect value.''), StatusBadRequest), world_venv_in_use)"
  using delete_guard_empty_or_star[of "''*''" env_ok "''1''" "''amd''" svc_linux world_venv_in_use]
  by simp

section \<open>Properties of the configuration patch engine\<close>






lemma digit_char_0: "digit_char 0 = CHR ''0''"
  by (simp add: digit_char_def)

text \<open>A float with an integral value is formatted by \<open>%.1f\<close> as that integer followed
  by \<open>.0\<close>.\<close>

lemma fmt_1f_integral: "fmt_1f (of_int i) = show_int i @ ''.0''"
proof -
  have x: "10 * \<bar>rat_of_int i\<bar> = of_int (10 * \<bar>i\<bar>)" by simp
  have f: "\<lfloor>10 * \<bar>rat_of_int i\<bar>\<rfloor> = 10 * \<bar>i\<bar>" unfolding x by (rule floor_of_int)
  have d: "10 * \<bar>rat_of_int i\<bar> - of_int (10 * \<bar>i\<bar>) = 0" by simp
  have dv: "(10 * i) div 10 = i" and md: "(10 * i) mod 10 = 0"
    and dvn: "(- (10 * i)) div 10 = - i" and mdn: "(- (10 * i)) mod 10 = 0"
    by presburger+
  show ?thesis
    unfolding fmt_1f_def Let_def f d
    by (cases "i < 0") (simp_all add: dv md dvn mdn show_int_def digit_char_0 del: show_nat.simps)
qed

lemma Int64_3_5: "Int64 ''3.5'' = None"
  by (simp add: Int64_def is_digit_def dec_val_def digit_val_def)

lemma Float64_ok_3_5: "Float64_ok ''3.5''"
  by (simp add: Float64_ok_def float64_in_range_def is_digit_def dec_val_def digit_val_def Let_def)

text \<open>
  Claim C6, as stated: with target \<open>{"n": 3}\<close> and patch \<open>{"n": 7}\<close> the merged \<open>n\<close> is
  written \<open>7.0\<close>, and with target \<open>{"n": "str"}\<close> and patch \<open>{"n": 9}\<close> the merged \<open>n\<close> is
  the string conversion of 9. Both fail: the literal \<open>3\<close> parses as an integer, so the
  patch value is stored as it is and written \<open>7\<close>; and over a string the patch value
  is stored as it is, the number 9.
\<close>

theorem patch_integer_literal_not_one_decimal:
  "changeInterface [(''n'', JFloat 7)] [(''n'', JNumber ''3'')] = Some (Some [(''n'', JFloat 7)], None)
   \<and> marshal_number (JFloat 7) = Some ''7''
   \<and> changeInterface [(''n'', JFloat 9)] [(''n'', JStr ''str'')] = Some (Some [(''n'', JFloat 9)], None)"
  by (simp add: changeInterface_def Int64_def is_digit_def dec_val_def digit_val_def show_int_def
      digit_char_def)

text \<open>
  Claim C6, amended: for a numeric patch value \<open>r\<close> at a key \<open>n\<close> of the target: when the
  target value is a numeric literal that parses as an integer (such as \<open>3\<close>), the merged
  value is the patch number itself (7 is written \<open>7\<close>); when it is a numeric literal
  that parses only as a float (such as \<open>3.5\<close>), the merged value is the patch number
  formatted with one decimal (7 becomes \<open>7.0\<close>); when it is a string, the merged value
  is the patch number itself, not a string.
\<close>

theorem patch_number_by_target_literal:
  assumes "map_of target n = Some tv"
  shows "(tv = JNumber s \<and> Int64 s \<noteq> None \<longrightarrow>
            changeInterface [(n, JFloat r)] target = Some (Some (set_key n (JFloat r) target), None))
       \<and> (tv = JNumber s \<and> Int64 s = None \<and> Float64_ok s \<longrightarrow>
            changeInterface [(n, JFloat r)] target
              = Some (Some (set_key n (JNumber (fmt_1f r)) target), None))
       \<and> (tv = JStr s \<longrightarrow>
            changeInterface [(n, JFloat r)] target = Some (Some (set_key n (JFloat r) target), None))"
  using assms by (auto simp: changeInterface_def)

text \<open>Witness for C6 amended: target \<open>{"n": 3.5}\<close> and patch \<open>{"n": 7}\<close> give \<open>7.0\<close>.\<close>

theorem patch_number_by_target_literal_witness:
  "map_of [(''n'', JNumber ''3.5'')] ''n'' = Some (JNumber ''3.5'')
   \<and> Int64 ''3.5'' = None \<and> Float64_ok ''3.5''
   \<and> changeInterface [(''n'', JFloat 7)] [(''n'', JNumber ''3.5'')]
       = Some (Some [(''n'', JNumber ''7.0'')], None)
   \<and> marshal_number (JNumber ''7.0'') = Some ''7.0''"
  using patch_number_by_target_literal[of "[(''n'', JNumber ''3.5'')]" "''n''" "JNumber ''3.5''" "''3.5''" 7]
    Int64_3_5 Float64_ok_3_5 fmt_1f_integral[of 7]
  by (simp add: show_int_def digit_char_def)

section \<open>The event trace only grows\<close>

lemma tle_trans: "tle a b \<Longrightarrow> tle b c \<Longrightarrow> tle a c" by (auto simp: tle_def)
lemma tle_upd [simp]:
  "tle w (w0\<lparr>paths := p\<rparr>) = tle w w0"
  "tle w (w0\<lparr>registry := r\<rparr>) = tle w w0"
  "tle w (w0\<lparr>devconfig := d\<rparr>) = tle w w0"
  "tle w (w0\<lparr>jsonfiles := j\<rparr>) = tle w w0"
  by (simp_all add: tle_def)














































lemma tle_fun_prod_o3:
  "(\<And>a b. tle w (final_world (f a b w1))) \<Longrightarrow> tle w (final_world ((case x of (a, b) \<Rightarrow> f a b) w1))"
  by (cases x) simp



















section \<open>Acknowledgement before result\<close>






section \<open>Deploying a name that is already registered\<close>



lemma fileDownload_failed:
  assumes "e_http e (now w) url = HttpAnswer False status fileSize appRepoPath fileName"
  shows "fileDownload e url appId app appName archType w =
     Done ((if archType = ''win'' then ''C:/sdt/app'' else ''/usr/local/sdt/app'') @ ''/'' @ fileName,
           0, Some (ErrNew (''Download error: '' @ status)), appRepoPath,
           (if archType = ''win'' then ''C:/sdt/app'' else ''/usr/local/sdt/app'') @ ''/'' @ fileName)
       (w\<lparr>trace := trace w @ [EvHttpGet url],
           paths := paths w \<union> {(if archType = ''win'' then ''C:/sdt/app'' else ''/usr/local/sdt/app'')}\<rparr>)"
  using assms by (simp add: fileDownload_def emit_def Let_def)






section \<open>The deferred reply to a reboot\<close>









end
